theory Spec2Isabelle
  imports Main "HOL-Library.Sublist"
begin

section \<open>Python strings\<close>

text \<open>
  A Python \<open>str\<close> is modelled as a \<open>string\<close> (a list of \<open>char\<close>); a character is read as
  a code point below 256. On that range \<open>str.isspace\<close> and the regular expression class
  \<open>\s\<close> agree and hold for the code points 9 to 13, 28 to 32, 133 and 160, and
  \<open>str.lower\<close> moves A to Z and the code points 192 to 222 other than 215 up by 32.
\<close>

definition isspace :: "char \<Rightarrow> bool" where
  "isspace c =
     (let n = (of_char c :: nat)
      in (9 \<le> n \<and> n \<le> 13) \<or> (28 \<le> n \<and> n \<le> 32) \<or> n = 133 \<or> n = 160)"

definition lower_char :: "char \<Rightarrow> char" where
  "lower_char c =
     (let n = (of_char c :: nat)
      in if (65 \<le> n \<and> n \<le> 90) \<or> (192 \<le> n \<and> n \<le> 222 \<and> n \<noteq> 215)
         then char_of (n + 32) else c)"

definition lower :: "string \<Rightarrow> string" where
  "lower s = map lower_char s"

text \<open>\<open>sep.join(parts)\<close>.\<close>

fun join :: "string \<Rightarrow> string list \<Rightarrow> string" where
  "join sep [] = []"
| "join sep [x] = x"
| "join sep (x # y # ys) = x @ sep @ join sep (y # ys)"

text \<open>
  \<open>s.split(sep)\<close> for a separator of one character: the pieces between the separators,
  empty pieces kept, so the result is never the empty list.
\<close>

fun split :: "char \<Rightarrow> string \<Rightarrow> string list" where
  "split sep [] = [[]]"
| "split sep (c # cs) =
     (if c = sep then [] # split sep cs
      else (case split sep cs of [] \<Rightarrow> [[c]] | p # ps \<Rightarrow> (c # p) # ps))"

text \<open>\<open>s.rstrip(chars)\<close> and \<open>s.strip()\<close>.\<close>

definition rstrip :: "(char \<Rightarrow> bool) \<Rightarrow> string \<Rightarrow> string" where
  "rstrip P s = rev (dropWhile P (rev s))"

definition strip :: "string \<Rightarrow> string" where
  "strip s = rstrip isspace (dropWhile isspace s)"

text \<open>\<open>re.sub(r"\s+", " ", raw)\<close>: every maximal run of whitespace becomes one space.\<close>

function sub_ws :: "string \<Rightarrow> string" where
  "sub_ws [] = []"
| "sub_ws (c # cs) =
     (if isspace c then CHR '' '' # sub_ws (dropWhile isspace cs) else c # sub_ws cs)"
  by pat_completeness auto
termination
  by (relation "measure length") (auto simp: le_imp_less_Suc length_dropWhile_le)

section \<open>Parser events\<close>

text \<open>
  Both parsers of the program subclass \<open>html.parser.HTMLParser\<close> and override some of its
  handlers. The library tokenizer calls \<open>handle_starttag(tag, attrs)\<close>,
  \<open>handle_endtag(tag)\<close> and \<open>handle_data(data)\<close>; the other callbacks are not overridden
  and do nothing. An attribute written without a value has the value \<open>None\<close>.
\<close>

type_synonym attrs = "(string \<times> string option) list"

datatype event = StartTag string attrs | EndTag string | Data string

section \<open>HTMLTextExtractor\<close>

definition SKIP_TAGS :: "string list" where
  "SKIP_TAGS = [''script'', ''style'', ''noscript'', ''head'']"

text \<open>The fields \<open>_pieces\<close> and \<open>_skip_depth\<close>; the depth is a Python \<open>int\<close>.\<close>

record text_extractor =
  pieces :: "string list"
  skip_depth :: int

definition HTMLTextExtractor_init :: text_extractor where
  "HTMLTextExtractor_init = \<lparr>pieces = [], skip_depth = 0\<rparr>"

definition text_handle_starttag :: "text_extractor \<Rightarrow> string \<Rightarrow> attrs \<Rightarrow> text_extractor" where
  "text_handle_starttag s tag ats =
     (if lower tag \<in> set SKIP_TAGS then s\<lparr>skip_depth := skip_depth s + 1\<rparr> else s)"

definition text_handle_endtag :: "text_extractor \<Rightarrow> string \<Rightarrow> text_extractor" where
  "text_handle_endtag s tag =
     (if lower tag \<in> set SKIP_TAGS \<and> skip_depth s > 0
      then s\<lparr>skip_depth := skip_depth s - 1\<rparr> else s)"

definition text_handle_data :: "text_extractor \<Rightarrow> string \<Rightarrow> text_extractor" where
  "text_handle_data s d =
     (if skip_depth s = 0 then s\<lparr>pieces := pieces s @ [d]\<rparr> else s)"

fun text_handle :: "text_extractor \<Rightarrow> event \<Rightarrow> text_extractor" where
  "text_handle s (StartTag tag ats) = text_handle_starttag s tag ats"
| "text_handle s (EndTag tag) = text_handle_endtag s tag"
| "text_handle s (Data d) = text_handle_data s d"

text \<open>The events of one \<open>feed\<close>, handled in order.\<close>

definition text_feed :: "text_extractor \<Rightarrow> event list \<Rightarrow> text_extractor" where
  "text_feed s es = foldl text_handle s es"

definition get_text :: "text_extractor \<Rightarrow> string" where
  "get_text s = strip (sub_ws (join '' '' (pieces s)))"

section \<open>The library functions the program calls\<close>

text \<open>
  An exception is its type name and its message \<open>str(exc)\<close>.
\<close>

datatype py_exception = PyException (exc_type: string) (exc_str: string)

text \<open>The fields of the result of \<open>urllib.parse.urlparse\<close> that the program reads.\<close>

record parsed_url =
  scheme :: string
  netloc :: string
  path :: string

text \<open>
  \<open>urlparse\<close>, \<open>urljoin\<close> and the tokenizer behind \<open>HTMLParser.feed\<close> belong to the
  Python standard library, not to the program, and are parameters of the model. Either
  of the URL functions may raise (\<open>ValueError\<close> on a malformed host). The tokenizer turns
  a document into the handler calls that one \<open>feed\<close> makes, in order (the program never
  calls \<open>close\<close>), and may raise after the last of them.
\<close>

record stdlib =
  urlparse :: "string \<Rightarrow> py_exception + parsed_url"
  urljoin :: "string \<Rightarrow> string \<Rightarrow> py_exception + string"
  html_feed :: "string \<Rightarrow> event list \<times> py_exception option"

text \<open>
  \<open>fetch_html(url, session)\<close> performs a network request: its result depends on the
  outside world and on the session's cookies, and it changes both. The world is passed
  in and returned; a failure (network error, timeout, or the status error of
  \<open>raise_for_status\<close>) is the exception raised.
\<close>

type_synonym 'w fetch = "'w \<Rightarrow> string \<Rightarrow> (py_exception + string) \<times> 'w"

definition extract_text :: "stdlib \<Rightarrow> string \<Rightarrow> py_exception + string" where
  "extract_text lib html =
     (case html_feed lib html of
        (es, Some exc) \<Rightarrow> Inl exc
      | (es, None) \<Rightarrow> Inr (get_text (text_feed HTMLTextExtractor_init es)))"

section \<open>LinkExtractor\<close>

definition IGNORE_EXTENSIONS :: "string list" where
  "IGNORE_EXTENSIONS =
     [''.png'', ''.jpg'', ''.jpeg'', ''.gif'', ''.svg'', ''.css'', ''.js'',
      ''.ico'', ''.woff'', ''.woff2'', ''.ttf'', ''.eot'', ''.pdf'', ''.zip'',
      ''.xml'']"

definition IGNORE_PREFIXES :: "string list" where
  "IGNORE_PREFIXES = [''mailto:'', ''tel:'', ''javascript:'', ''#'']"

definition IGNORE_PATH_SEGMENTS :: "string list" where
  "IGNORE_PATH_SEGMENTS =
     [''rss'', ''feed'', ''cdn-cgi'', ''tag'', ''category'', ''page'', ''author'']"

record link_extractor =
  base_url :: string
  base_domain :: string
  base_path :: string
  links :: "string list"

text \<open>\<open>[p for p in parsed.path.split("/") if p]\<close>.\<close>

definition path_parts :: "string \<Rightarrow> string list" where
  "path_parts p = filter (\<lambda>x. x \<noteq> []) (split CHR ''/'' p)"

text \<open>
  The prefix computed from the segments, written out once in \<open>LinkExtractor.__init__\<close>
  and once more, with the same text, in the debug branch of \<open>scrape_articles\<close>.
\<close>

definition compute_base_path :: "string list \<Rightarrow> string" where
  "compute_base_path parts =
     (if length parts \<ge> 2 then ''/'' @ join ''/'' (butlast parts) @ ''/''
      else (if parts \<noteq> [] then ''/'' @ join ''/'' parts @ ''/'' else ''/''))"

definition LinkExtractor_init :: "stdlib \<Rightarrow> string \<Rightarrow> py_exception + link_extractor" where
  "LinkExtractor_init lib url =
     (case urlparse lib url of
        Inl exc \<Rightarrow> Inl exc
      | Inr parsed \<Rightarrow>
          Inr \<lparr>base_url = url,
               base_domain = lower (netloc parsed),
               base_path = compute_base_path (path_parts (path parsed)),
               links = []\<rparr>)"

definition is_article_link :: "stdlib \<Rightarrow> link_extractor \<Rightarrow> string \<Rightarrow> py_exception + bool" where
  "is_article_link lib s full_url =
     (case urlparse lib full_url of
        Inl exc \<Rightarrow> Inl exc
      | Inr parsed \<Rightarrow>
          Inr (if lower (netloc parsed) \<noteq> base_domain s then False
               else let p = rstrip (\<lambda>c. c = CHR ''/'') (path parsed) @ ''/''
                 in if \<not> prefix (base_path s) p \<or> p = base_path s then False
                 else let segments = path_parts (path parsed)
                   in if length segments < 3 then False
                   else let lower_segments = map lower segments
                     in if \<exists>x \<in> set IGNORE_PATH_SEGMENTS. x \<in> set lower_segments
                        then False else True))"

text \<open>
  \<open>dict(attrs).get(name)\<close>: of several attributes of one name the last one counts, and
  a missing attribute and an attribute without a value both give \<open>None\<close>.
\<close>

definition dict_get :: "attrs \<Rightarrow> string \<Rightarrow> string option" where
  "dict_get ats name = (case map_of (rev ats) name of None \<Rightarrow> None | Some v \<Rightarrow> v)"

definition link_handle_starttag ::
  "stdlib \<Rightarrow> link_extractor \<Rightarrow> string \<Rightarrow> attrs \<Rightarrow> py_exception + link_extractor" where
  "link_handle_starttag lib s tag ats =
     (if lower tag \<noteq> ''a'' then Inr s
      else (case dict_get ats ''href'' of
        None \<Rightarrow> Inr s
      | Some href \<Rightarrow>
          (if href = [] then Inr s
           else if \<exists>p \<in> set IGNORE_PREFIXES. prefix p href then Inr s
           else (case urljoin lib (base_url s) href of
             Inl exc \<Rightarrow> Inl exc
           | Inr full \<Rightarrow>
               (case urlparse lib full of
                  Inl exc \<Rightarrow> Inl exc
                | Inr parsed \<Rightarrow>
                    (if \<exists>ext \<in> set IGNORE_EXTENSIONS. suffix ext (lower (path parsed))
                     then Inr s
                     else (case split CHR ''#'' full of
                       [] \<Rightarrow> Inl (PyException ''IndexError'' ''list index out of range'')
                     | full' # rest \<Rightarrow>
                         (if scheme parsed \<in> {''http'', ''https''}
                          then (case is_article_link lib s full' of
                                  Inl exc \<Rightarrow> Inl exc
                                | Inr ok \<Rightarrow>
                                    (if ok \<and> full' \<notin> set (links s)
                                     then Inr (s\<lparr>links := links s @ [full']\<rparr>)
                                     else Inr s))
                          else Inr s))))))))"

text \<open>
  The canonical URL of an anchor, as \<open>handle_starttag\<close> forms it: the \<open>href\<close> resolved
  against the base URL, cut at the first \<open>#\<close>.
\<close>

definition canonical_url :: "stdlib \<Rightarrow> link_extractor \<Rightarrow> attrs \<Rightarrow> string option" where
  "canonical_url lib s ats =
     (case dict_get ats ''href'' of
        None \<Rightarrow> None
      | Some href \<Rightarrow>
          (case urljoin lib (base_url s) href of
             Inl exc \<Rightarrow> None
           | Inr full \<Rightarrow> (case split CHR ''#'' full of [] \<Rightarrow> None | u # rest \<Rightarrow> Some u)))"

text \<open>\<open>LinkExtractor\<close> overrides \<open>handle_starttag\<close> only.\<close>

fun link_handle :: "stdlib \<Rightarrow> link_extractor \<Rightarrow> event \<Rightarrow> py_exception + link_extractor" where
  "link_handle lib s (StartTag tag ats) = link_handle_starttag lib s tag ats"
| "link_handle lib s (EndTag tag) = Inr s"
| "link_handle lib s (Data d) = Inr s"

text \<open>The handler calls of one \<open>feed\<close>; an exception in a handler ends it.\<close>

fun link_events :: "stdlib \<Rightarrow> link_extractor \<Rightarrow> event list \<Rightarrow> py_exception + link_extractor" where
  "link_events lib s [] = Inr s"
| "link_events lib s (e # es) =
     (case link_handle lib s e of
        Inl exc \<Rightarrow> Inl exc
      | Inr s' \<Rightarrow> link_events lib s' es)"

definition link_feed :: "stdlib \<Rightarrow> link_extractor \<Rightarrow> string \<Rightarrow> py_exception + link_extractor" where
  "link_feed lib s html =
     (case html_feed lib html of
        (es, err) \<Rightarrow>
          (case link_events lib s es of
             Inl exc \<Rightarrow> Inl exc
           | Inr s' \<Rightarrow> (case err of Some exc \<Rightarrow> Inl exc | None \<Rightarrow> Inr s')))"

definition extract_links :: "stdlib \<Rightarrow> string \<Rightarrow> string \<Rightarrow> py_exception + string list" where
  "extract_links lib html url =
     (case LinkExtractor_init lib url of
        Inl exc \<Rightarrow> Inl exc
      | Inr parser \<Rightarrow>
          (case link_feed lib parser html of
             Inl exc \<Rightarrow> Inl exc
           | Inr parser' \<Rightarrow> Inr (links parser')))"

section \<open>scrape_articles\<close>

text \<open>
  The dictionaries the crawl returns: \<open>{"url", "content"}\<close>, \<open>{"url", "error"}\<close>, and
  the report of the debug mode.
\<close>

record debug_report =
  html_length :: nat
  base_path_used :: string
  filtered_article_links :: "string list"
  all_same_domain_links :: "string list"

datatype result =
    Content string string
  | Error string string
  | DebugReport debug_report

text \<open>The value under the key \<open>url\<close>, and the two kinds of article record.\<close>

fun result_url :: "result \<Rightarrow> string option" where
  "result_url (Content u c) = Some u"
| "result_url (Error u e) = Some u"
| "result_url (DebugReport r) = None"

fun is_content :: "result \<Rightarrow> bool" where
  "is_content (Content u c) = True"
| "is_content r = False"

fun is_error :: "result \<Rightarrow> bool" where
  "is_error (Error u e) = True"
| "is_error r = False"

text \<open>
  The body of the \<open>for\<close> loop for one link, a \<open>try\<close> around the fetch and the
  reduction: whatever either raises becomes the error record of that link.
\<close>

definition scrape_link ::
  "stdlib \<Rightarrow> 'w fetch \<Rightarrow> 'w \<Rightarrow> string \<Rightarrow> result list \<Rightarrow> result list \<times> 'w" where
  "scrape_link lib fetch w link results =
     (case fetch w link of
        (Inl exc, w') \<Rightarrow> (results @ [Error link (exc_str exc)], w')
      | (Inr page_html, w') \<Rightarrow>
          (case extract_text lib page_html of
             Inl exc \<Rightarrow> (results @ [Error link (exc_str exc)], w')
           | Inr content \<Rightarrow>
               (if content \<noteq> [] then (results @ [Content link content], w')
                else (results, w'))))"

text \<open>The record the loop body appends for a link, when it appends one.\<close>

definition link_record :: "stdlib \<Rightarrow> string \<Rightarrow> py_exception + string \<Rightarrow> result" where
  "link_record lib link out =
     (case out of
        Inl exc \<Rightarrow> Error link (exc_str exc)
      | Inr page_html \<Rightarrow>
          (case extract_text lib page_html of
             Inl exc \<Rightarrow> Error link (exc_str exc)
           | Inr content \<Rightarrow> Content link content))"

fun scrape_loop ::
  "stdlib \<Rightarrow> 'w fetch \<Rightarrow> 'w \<Rightarrow> string list \<Rightarrow> result list \<Rightarrow> result list \<times> 'w" where
  "scrape_loop lib fetch w [] results = (results, w)"
| "scrape_loop lib fetch w (link # rest) results =
     (case scrape_link lib fetch w link results of
        (results', w') \<Rightarrow> scrape_loop lib fetch w' rest results')"

definition scrape_articles ::
  "stdlib \<Rightarrow> 'w fetch \<Rightarrow> 'w \<Rightarrow> string \<Rightarrow> bool \<Rightarrow> (py_exception + result list) \<times> 'w" where
  "scrape_articles lib fetch w url debug =
     (case fetch w url of
        (Inl exc, w1) \<Rightarrow> (Inl exc, w1)
      | (Inr index_html, w1) \<Rightarrow>
          (case extract_links lib index_html url of
             Inl exc \<Rightarrow> (Inl exc, w1)
           | Inr article_links \<Rightarrow>
               (if debug then
                  (case urlparse lib url of
                     Inl exc \<Rightarrow> (Inl exc, w1)
                   | Inr parsed \<Rightarrow>
                       (case LinkExtractor_init lib url of
                          Inl exc \<Rightarrow> (Inl exc, w1)
                        | Inr raw_parser \<Rightarrow>
                            (case link_feed lib (raw_parser\<lparr>base_path := ''/''\<rparr>) index_html of
                               Inl exc \<Rightarrow> (Inl exc, w1)
                             | Inr raw_parser' \<Rightarrow>
                                 (Inr [DebugReport
                                        \<lparr>html_length = length index_html,
                                         base_path_used =
                                           compute_base_path (path_parts (path parsed)),
                                         filtered_article_links = article_links,
                                         all_same_domain_links = links raw_parser'\<rparr>],
                                  w1))))
                else
                  (case scrape_loop lib fetch w1 article_links [] of
                     (results, w2) \<Rightarrow> (Inr results, w2)))))"

section \<open>The scrape endpoint\<close>

text \<open>
  A JSON value as \<open>json.loads\<close> builds it (numbers as integers); \<open>JNull\<close> is also
  Python's \<open>None\<close>.
\<close>

datatype json =
    JNull
  | JBool bool
  | JNum int
  | JStr string
  | JArr "json list"
  | JObj "(string \<times> json) list"

text \<open>
  What the view reads of the request: the query parameters \<open>url\<close> and \<open>debug\<close>,
  \<open>is_json\<close>, and the value of \<open>get_json(silent=True, force=True)\<close>, which is \<open>None\<close>
  when the body is not JSON.
\<close>

record request =
  args_url :: "string option"
  args_debug :: "string option"
  is_json :: bool
  get_json :: "json option"

text \<open>Python's truth value of a JSON value.\<close>

fun truthy :: "json \<Rightarrow> bool" where
  "truthy JNull = False"
| "truthy (JBool b) = b"
| "truthy (JNum n) = (n \<noteq> 0)"
| "truthy (JStr s) = (s \<noteq> [])"
| "truthy (JArr xs) = (xs \<noteq> [])"
| "truthy (JObj kvs) = (kvs \<noteq> [])"

text \<open>
  \<open>value.get(key)\<close>: only a dictionary has the method, on every other value the
  attribute lookup raises.
\<close>

fun type_name :: "json option \<Rightarrow> string" where
  "type_name None = ''NoneType''"
| "type_name (Some JNull) = ''NoneType''"
| "type_name (Some (JBool b)) = ''bool''"
| "type_name (Some (JNum n)) = ''int''"
| "type_name (Some (JStr s)) = ''str''"
| "type_name (Some (JArr xs)) = ''list''"
| "type_name (Some (JObj kvs)) = ''dict''"

definition quoted :: "string \<Rightarrow> string" where
  "quoted s = CHR 0x27 # s @ [CHR 0x27]"

definition py_get :: "json option \<Rightarrow> string \<Rightarrow> py_exception + json" where
  "py_get v key =
     (case v of
        Some (JObj kvs) \<Rightarrow> Inr (case map_of (rev kvs) key of None \<Rightarrow> JNull | Some x \<Rightarrow> x)
      | other \<Rightarrow>
          Inl (PyException ''AttributeError''
                (quoted (type_name other) @ '' object has no attribute '' @ quoted ''get'')))"

datatype payload =
    ErrorMessage string
  | Results "result list"

text \<open>
  The view returns a payload and a status, or an exception leaves it (\<open>Inl\<close>). A \<open>url\<close>
  that is not a string reaches \<open>scrape_articles\<close> unchecked, where the fetch or, at the
  latest, \<open>urlparse\<close> raises on it inside the \<open>try\<close>; what is raised there is the
  parameter \<open>bad_url\<close>.
\<close>

definition scrape ::
  "stdlib \<Rightarrow> 'w fetch \<Rightarrow> ('w \<Rightarrow> json \<Rightarrow> py_exception \<times> 'w) \<Rightarrow> 'w \<Rightarrow> request \<Rightarrow>
     (py_exception + payload \<times> nat) \<times> 'w" where
  "scrape lib fetch bad_url w req =
     (let url0 = (case args_url req of None \<Rightarrow> JNull | Some u \<Rightarrow> JStr u)
      in case (if \<not> truthy url0 \<and> is_json req then py_get (get_json req) ''url''
               else Inr url0) of
           Inl exc \<Rightarrow> (Inl exc, w)
         | Inr url \<Rightarrow>
             (if \<not> truthy url
              then (Inr (ErrorMessage ''Missing required parameter: url'', 400), w)
              else
                (let debug =
                       (lower (case args_debug req of None \<Rightarrow> [] | Some d \<Rightarrow> d)
                          \<in> {''1'', ''true''})
                 in case (case url of
                            JStr u \<Rightarrow> scrape_articles lib fetch w u debug
                          | other \<Rightarrow> (case bad_url w other of (exc, w') \<Rightarrow> (Inl exc, w'))) of
                      (Inr results, w') \<Rightarrow> (Inr (Results results, 200), w')
                    | (Inl exc, w') \<Rightarrow> (Inr (ErrorMessage (exc_str exc), 500), w'))))"

section \<open>Example inputs\<close>

text \<open>
  The values of the library functions at the inputs of the examples below, as CPython
  3.11 computes them, and a network of five pages of the site \<open>ex.org\<close>. The world of
  the example network is the list of the URLs requested so far.
\<close>

definition example_urls :: "(string \<times> parsed_url) list" where
  "example_urls =
     [(''https://ex.org/news/list/'',
         \<lparr>scheme = ''https'', netloc = ''ex.org'', path = ''/news/list/''\<rparr>),
      (''https://ex.org/news/archive/'',
         \<lparr>scheme = ''https'', netloc = ''ex.org'', path = ''/news/archive/''\<rparr>),
      (''https://ex.org/news/2024/one'',
         \<lparr>scheme = ''https'', netloc = ''ex.org'', path = ''/news/2024/one''\<rparr>),
      (''https://ex.org/news/2024/one#top'',
         \<lparr>scheme = ''https'', netloc = ''ex.org'', path = ''/news/2024/one''\<rparr>),
      (''https://ex.org/news/2024/two'',
         \<lparr>scheme = ''https'', netloc = ''ex.org'', path = ''/news/2024/two''\<rparr>),
      (''https://ex.org/news/2024/three'',
         \<lparr>scheme = ''https'', netloc = ''ex.org'', path = ''/news/2024/three''\<rparr>),
      (''https://ex.org/news/2024/blank'',
         \<lparr>scheme = ''https'', netloc = ''ex.org'', path = ''/news/2024/blank''\<rparr>),
      (''https://ex.org/news/tag/x'',
         \<lparr>scheme = ''https'', netloc = ''ex.org'', path = ''/news/tag/x''\<rparr>),
      (''https://ex.org/about/team/history'',
         \<lparr>scheme = ''https'', netloc = ''ex.org'', path = ''/about/team/history''\<rparr>),
      (''https://other.org/a/b/c'',
         \<lparr>scheme = ''https'', netloc = ''other.org'', path = ''/a/b/c''\<rparr>)]"

definition example_joins :: "(string \<times> string) list" where
  "example_joins =
     [(''/news/2024/one'', ''https://ex.org/news/2024/one''),
      (''/news/2024/one#top'', ''https://ex.org/news/2024/one#top''),
      (''/news/2024/two'', ''https://ex.org/news/2024/two''),
      (''/news/2024/three'', ''https://ex.org/news/2024/three''),
      (''/news/2024/blank'', ''https://ex.org/news/2024/blank''),
      (''/news/tag/x'', ''https://ex.org/news/tag/x''),
      (''/about/team/history'', ''https://ex.org/about/team/history''),
      (''https://other.org/a/b/c'', ''https://other.org/a/b/c'')]"

definition anchor :: "string \<Rightarrow> event list" where
  "anchor href = [StartTag ''a'' [(''href'', Some href)], Data ''x'', EndTag ''a'']"

definition index_list :: string where
  "index_list =
     ''<a href=/news/2024/one>x</a><a href=/news/tag/x>x</a>'' @
     ''<a href=/news/2024/one#top>x</a><a href=/news/2024/two>x</a>'' @
     ''<a href=https://other.org/a/b/c>x</a><a href=/about/team/history>x</a>'' @
     ''<a href=/news/2024/three>x</a>''"

definition index_archive :: string where
  "index_archive = ''<a href=/news/2024/one>x</a><a href=/news/2024/blank>x</a>''"

definition example_documents :: "(string \<times> event list) list" where
  "example_documents =
     [(index_list,
         anchor ''/news/2024/one'' @ anchor ''/news/tag/x'' @ anchor ''/news/2024/one#top'' @
         anchor ''/news/2024/two'' @ anchor ''https://other.org/a/b/c'' @
         anchor ''/about/team/history'' @ anchor ''/news/2024/three''),
      (index_archive, anchor ''/news/2024/one'' @ anchor ''/news/2024/blank''),
      (''<p>Hello <script>ignored()</script>World</p>'',
         [StartTag ''p'' [], Data ''Hello '', StartTag ''script'' [], Data ''ignored()'',
          EndTag ''script'', Data ''World'', EndTag ''p'']),
      (''<p>Three</p>'', [StartTag ''p'' [], Data ''Three'', EndTag ''p'']),
      (''<script>x</script>'', [StartTag ''script'' [], Data ''x'', EndTag ''script'']),
      (''&amp;amp;'', [Data ''&amp;'']),
      (''&amp;'', [Data ''&'']),
      (''a  b'', [Data ''a  b'']),
      (''a b'', [Data ''a b''])]"

definition example_lib :: stdlib where
  "example_lib =
     \<lparr>urlparse = (\<lambda>u. case map_of example_urls u of
                         Some parsed \<Rightarrow> Inr parsed
                       | None \<Rightarrow> Inl (PyException ''ValueError'' ''not an example'')),
      urljoin = (\<lambda>base href.
                   if base \<in> {''https://ex.org/news/list/'', ''https://ex.org/news/archive/''}
                   then (case map_of example_joins href of
                           Some full \<Rightarrow> Inr full
                         | None \<Rightarrow> Inl (PyException ''ValueError'' ''not an example''))
                   else Inl (PyException ''ValueError'' ''not an example'')),
      html_feed = (\<lambda>html. case map_of example_documents html of
                            Some es \<Rightarrow> (es, None)
                          | None \<Rightarrow> ([], Some (PyException ''AssertionError'' ''not an example'')))\<rparr>"

definition example_parser :: link_extractor where
  "example_parser =
     \<lparr>base_url = ''https://ex.org/news/list/'', base_domain = ''ex.org'',
      base_path = ''/news/'', links = []\<rparr>"

definition example_pages :: "(string \<times> string) list" where
  "example_pages =
     [(''https://ex.org/news/list/'', index_list),
      (''https://ex.org/news/archive/'', index_archive),
      (''https://ex.org/news/2024/one'', ''<p>Hello <script>ignored()</script>World</p>''),
      (''https://ex.org/news/2024/three'', ''<p>Three</p>''),
      (''https://ex.org/news/2024/blank'', ''<script>x</script>'')]"

definition example_fetch :: "string list fetch" where
  "example_fetch w url =
     (case map_of example_pages url of
        Some html \<Rightarrow> (Inr html, w @ [url])
      | None \<Rightarrow> (Inl (PyException ''HTTPError'' ''HTTP Error 404: ''), w @ [url]))"

section \<open>The suppression depth\<close>

lemma text_handle_depth: "0 \<le> skip_depth s \<Longrightarrow> 0 \<le> skip_depth (text_handle s e)"
  by (cases e)
    (simp_all add: text_handle_starttag_def text_handle_endtag_def text_handle_data_def)

lemma text_feed_depth: "0 \<le> skip_depth s \<Longrightarrow> 0 \<le> skip_depth (text_feed s es)"
  unfolding text_feed_def
  by (induction es arbitrary: s) (simp_all add: text_handle_depth)

text \<open>
  Claim C5. Whatever events the reducer is fed, the suppression depth is non-negative
  after every one of them (after every prefix of the event sequence), and a close tag of
  a suppressed kind that arrives at depth zero changes neither the depth nor the
  collected pieces.
\<close>

theorem skip_depth_never_negative:
  "0 \<le> skip_depth (text_feed HTMLTextExtractor_init (take n es)) \<and>
   (lower tag \<in> set SKIP_TAGS \<and> skip_depth s = 0 \<longrightarrow>
      skip_depth (text_handle s (EndTag tag)) = skip_depth s \<and>
      pieces (text_handle s (EndTag tag)) = pieces s)"
  by (simp add: text_feed_depth HTMLTextExtractor_init_def text_handle_endtag_def)

theorem skip_depth_never_negative_witness:
  "0 \<le> skip_depth (text_feed HTMLTextExtractor_init
          (take 2 [EndTag ''script'', StartTag ''STYLE'' [], EndTag ''head'', Data ''x''])) \<and>
   lower ''Script'' \<in> set SKIP_TAGS \<and> skip_depth HTMLTextExtractor_init = 0 \<and>
   skip_depth (text_handle HTMLTextExtractor_init (EndTag ''Script'')) = 0 \<and>
   pieces (text_handle HTMLTextExtractor_init (EndTag ''Script'')) = []"
proof -
  have tag: "lower ''Script'' \<in> set SKIP_TAGS"
    by code_simp
  have init: "skip_depth HTMLTextExtractor_init = 0" "pieces HTMLTextExtractor_init = []"
    by (simp_all add: HTMLTextExtractor_init_def)
  from skip_depth_never_negative
    [of 2 "[EndTag ''script'', StartTag ''STYLE'' [], EndTag ''head'', Data ''x'']"
        "''Script''" HTMLTextExtractor_init] tag init
  show ?thesis by simp
qed

section \<open>Whitespace normalisation\<close>

lemma sub_ws_Nil_iff: "sub_ws xs = [] \<longleftrightarrow> xs = []"
  by (cases xs) simp_all

lemma dropWhile_sub_ws_start:
  "xs = [] \<or> \<not> isspace (hd xs) \<Longrightarrow> dropWhile isspace (sub_ws xs) = sub_ws xs"
  by (cases xs) auto

lemma dropWhile_start: "dropWhile P xs = [] \<or> \<not> P (hd (dropWhile P xs))"
  using hd_dropWhile [of P xs] by blast

lemma sub_ws_dropWhile: "sub_ws (dropWhile isspace xs) = dropWhile isspace (sub_ws xs)"
proof (cases xs)
  case Nil
  then show ?thesis by simp
next
  case (Cons c cs)
  show ?thesis
  proof (cases "isspace c")
    case True
    have "isspace CHR '' ''"
      by (simp add: isspace_def)
    with True Cons dropWhile_sub_ws_start [OF dropWhile_start [of isspace cs]]
    show ?thesis by simp
  next
    case False
    with Cons show ?thesis by simp
  qed
qed

lemma sub_ws_idem: "sub_ws (sub_ws xs) = sub_ws xs"
proof (induction xs rule: sub_ws.induct)
  case 1
  show ?case by simp
next
  case (2 c cs)
  have sp: "isspace CHR '' ''"
    by (simp add: isspace_def)
  show ?case
  proof (cases "isspace c")
    case True
    with 2 sp dropWhile_sub_ws_start [OF dropWhile_start [of isspace cs]]
    show ?thesis by simp
  next
    case False
    with 2 show ?thesis by simp
  qed
qed

lemma rstrip_Nil [simp]: "rstrip P [] = []"
  by (simp add: rstrip_def)

lemma rstrip_Nil_iff: "rstrip P xs = [] \<longleftrightarrow> (\<forall>x \<in> set xs. P x)"
  by (simp add: rstrip_def)

lemma rstrip_Cons:
  "rstrip P (x # xs) = (if rstrip P xs = [] \<and> P x then [] else x # rstrip P xs)"
  by (simp add: rstrip_def dropWhile_append)

lemma rstrip_idem: "rstrip P (rstrip P xs) = rstrip P xs"
  by (simp add: rstrip_def)

lemma dropWhile_rstrip: "dropWhile P (rstrip P xs) = rstrip P (dropWhile P xs)"
proof (induction xs)
  case Nil
  show ?case by simp
next
  case (Cons x xs)
  show ?case
  proof (cases "\<forall>y \<in> set xs. P y")
    case True
    then have dw: "dropWhile P xs = []" and rs: "rstrip P xs = []"
      by (simp_all add: rstrip_Nil_iff)
    show ?thesis
      by (simp add: rstrip_Cons dw rs)
  next
    case False
    then have "rstrip P xs \<noteq> []"
      by (simp add: rstrip_Nil_iff)
    with Cons show ?thesis
      by (simp add: rstrip_Cons)
  qed
qed

lemma strip_idem: "strip (strip xs) = strip xs"
  by (simp add: strip_def dropWhile_rstrip rstrip_idem)

lemma sub_ws_rstrip: "sub_ws (rstrip isspace xs) = rstrip isspace (sub_ws xs)"
proof (induction xs rule: sub_ws.induct)
  case 1
  show ?case by simp
next
  case (2 c cs)
  have sp: "isspace CHR '' ''"
    by (simp add: isspace_def)
  show ?case
  proof (cases "isspace c")
    case False
    with 2 show ?thesis
      by (simp add: rstrip_Cons)
  next
    case True
    note IH = 2(1) [OF True]
    show ?thesis
    proof (cases "\<forall>x \<in> set cs. isspace x")
      case all: True
      then have dw: "dropWhile isspace cs = []"
        by simp
      from True all sp show ?thesis
        by (simp add: dw rstrip_Cons rstrip_Nil_iff)
    next
      case some: False
      then have ne: "rstrip isspace cs \<noteq> []"
        by (simp add: rstrip_Nil_iff)
      from some have "dropWhile isspace cs \<noteq> []"
        by simp
      moreover have "\<not> (\<forall>x \<in> set (dropWhile isspace cs). isspace x)"
        using some by (metis dropWhile_eq_Nil_conv dropWhile_idem)
      ultimately have ne2: "rstrip isspace (sub_ws (dropWhile isspace cs)) \<noteq> []"
        using IH by (metis rstrip_Nil_iff sub_ws_Nil_iff)
      have "sub_ws (rstrip isspace (c # cs)) =
          CHR '' '' # sub_ws (dropWhile isspace (rstrip isspace cs))"
        using True ne by (simp add: rstrip_Cons)
      also have "\<dots> = CHR '' '' # rstrip isspace (sub_ws (dropWhile isspace cs))"
        using IH by (simp add: dropWhile_rstrip)
      also have "\<dots> = rstrip isspace (sub_ws (c # cs))"
        using True ne2 by (simp add: rstrip_Cons)
      finally show ?thesis .
    qed
  qed
qed

lemma strip_sub_ws: "strip (sub_ws xs) = sub_ws (strip xs)"
  by (simp add: strip_def sub_ws_rstrip sub_ws_dropWhile)

lemma normalise_idem: "strip (sub_ws (strip (sub_ws xs))) = strip (sub_ws xs)"
  by (simp add: strip_sub_ws sub_ws_idem strip_idem)

lemma get_text_pieces: "get_text s = strip (sub_ws (join '' '' (pieces s)))"
  by (simp add: get_text_def)

text \<open>
  Claim C6, as amended. The whitespace normalisation is idempotent: the text of a
  reducer whose only piece is the text of another reducer is that text again. So the
  reduction of a reduced text \<open>t\<close> is \<open>t\<close> whenever the tokenizer hands \<open>t\<close> back as it
  is, in one text event (in none if \<open>t\<close> is empty).
\<close>

theorem reduce_idempotent_on_plain_text:
  "get_text (s\<lparr>pieces := [get_text s]\<rparr>) = get_text s \<and>
   (extract_text lib h = Inr t \<and> html_feed lib t = (if t = [] then [] else [Data t], None) \<longrightarrow>
      extract_text lib t = Inr t)"
proof -
  have idem: "get_text (s\<lparr>pieces := [get_text s]\<rparr>) = get_text s" for s
    by (simp add: get_text_pieces normalise_idem)
  have again: "extract_text lib t = Inr t"
    if h: "extract_text lib h = Inr t"
      and t: "html_feed lib t = (if t = [] then [] else [Data t], None)"
  proof -
    from h obtain es where "t = get_text (text_feed HTMLTextExtractor_init es)"
      by (auto simp: extract_text_def split: prod.splits option.splits)
    then obtain r where r: "t = strip (sub_ws r)"
      by (auto simp: get_text_pieces)
    show ?thesis
    proof (cases "t = []")
      case True
      with t show ?thesis
        by (simp add: extract_text_def text_feed_def HTMLTextExtractor_init_def get_text_pieces
            strip_def)
    next
      case False
      with t have "extract_text lib t = Inr (strip (sub_ws t))"
        by (simp add: extract_text_def text_feed_def HTMLTextExtractor_init_def get_text_pieces
            text_handle_data_def)
      with r show ?thesis
        by (simp add: normalise_idem)
    qed
  qed
  from idem again show ?thesis
    by blast
qed

theorem reduce_idempotent_on_plain_text_witness:
  "extract_text example_lib ''a  b'' = Inr ''a b'' \<and>
   html_feed example_lib ''a b'' = (if ''a b'' = [] then [] else [Data ''a b''], None) \<and>
   extract_text example_lib ''a b'' = Inr ''a b''"
proof -
  have h: "extract_text example_lib ''a  b'' = Inr ''a b''"
    by code_simp
  have t: "html_feed example_lib ''a b'' = (if ''a b'' = [] then [] else [Data ''a b''], None)"
    by code_simp
  from reduce_idempotent_on_plain_text [of _ example_lib "''a  b''" "''a b''"] h t
  show ?thesis
    by blast
qed

text \<open>
  Claim C6 as stated fails. \<open>HTMLTextExtractor\<close> keeps the default of \<open>HTMLParser\<close>,
  \<open>convert_charrefs=True\<close>, so the tokenizer replaces character references in the text
  it delivers: the document \<open>&amp;amp;\<close> arrives as the text \<open>&amp;\<close>, and the document
  \<open>&amp;\<close> as the text \<open>&\<close>. The reduction of \<open>&amp;amp;\<close> is \<open>&amp;\<close>, and reducing that
  again gives something else.
\<close>

theorem reduce_not_idempotent:
  "extract_text example_lib ''&amp;amp;'' = Inr ''&amp;'' \<and>
   extract_text example_lib ''&amp;'' \<noteq> Inr ''&amp;''"
  by code_simp

section \<open>The path prefix of the classifier\<close>

lemma split_not_Nil: "split sep s \<noteq> []"
  by (induction s) (auto split: list.splits)

lemma join_split: "join [sep] (split sep s) = s"
proof (induction s)
  case Nil
  show ?case by simp
next
  case (Cons c cs)
  obtain p ps where ps: "split sep cs = p # ps"
    using split_not_Nil [of sep cs] by (cases "split sep cs") auto
  with Cons show ?case
    by (cases ps) auto
qed

lemma split_no_sep: "seg \<in> set (split sep s) \<Longrightarrow> sep \<notin> set seg"
  by (induction s arbitrary: seg) (auto split: list.splits if_splits)

lemma path_parts_segments: "seg \<in> set (path_parts p) \<Longrightarrow> seg \<noteq> [] \<and> CHR ''/'' \<notin> set seg"
  by (auto simp: path_parts_def dest: split_no_sep)

lemma compute_base_path_cases:
  "compute_base_path segs =
     (if 2 \<le> length segs then ''/'' @ join ''/'' (butlast segs) @ ''/''
      else if length segs = 1 then ''/'' @ hd segs @ ''/''
      else ''/'')"
proof (cases segs)
  case Nil
  then show ?thesis by (simp add: compute_base_path_def)
next
  case (Cons x xs)
  then show ?thesis by (cases xs) (simp_all add: compute_base_path_def)
qed

lemma compute_base_path_slash: "suffix ''/'' (compute_base_path segs)"
  by (simp add: compute_base_path_def suffix_def)

text \<open>
  Claim C7. The classifier's prefix is built from the non-empty segments of the path of
  the base URL, the pieces between its slashes: with two or more segments it is a slash,
  the segments but the last joined by slashes, and a slash; with one segment it is that
  segment between two slashes; with none it is the slash alone. So it always ends with
  a slash. It is compared as it stands, character by character and without folding the
  case: a link is accepted only if its path, brought to one trailing slash, starts with
  exactly the prefix.
\<close>

theorem base_path_shape:
  assumes "LinkExtractor_init lib url = Inr s"
  shows "\<exists>parsed. urlparse lib url = Inr parsed \<and>
     (let segs = path_parts (path parsed)
      in (\<forall>seg \<in> set segs. seg \<noteq> [] \<and> CHR ''/'' \<notin> set seg) \<and>
         base_path s =
           (if 2 \<le> length segs then ''/'' @ join ''/'' (butlast segs) @ ''/''
            else if length segs = 1 then ''/'' @ hd segs @ ''/''
            else ''/'') \<and>
         suffix ''/'' (base_path s) \<and>
         (\<forall>u. is_article_link lib s u = Inr True \<longrightarrow>
            (\<exists>p. urlparse lib u = Inr p \<and>
                 prefix (base_path s) (rstrip (\<lambda>c. c = CHR ''/'') (path p) @ ''/''))))"
proof -
  from assms obtain parsed where parsed: "urlparse lib url = Inr parsed"
    and s: "base_path s = compute_base_path (path_parts (path parsed))"
    by (auto simp: LinkExtractor_init_def split: sum.splits)
  have acc: "\<exists>p. urlparse lib u = Inr p \<and>
                 prefix (base_path s) (rstrip (\<lambda>c. c = CHR ''/'') (path p) @ ''/'')"
    if "is_article_link lib s u = Inr True" for u
    using that by (auto simp: is_article_link_def Let_def split: sum.splits if_splits)
  show ?thesis
    using parsed s acc compute_base_path_slash [of "path_parts (path parsed)"]
      compute_base_path_cases [of "path_parts (path parsed)"]
    by (auto simp: Let_def dest: path_parts_segments)
qed

theorem base_path_shape_witness:
  "LinkExtractor_init example_lib ''https://ex.org/news/list/'' = Inr example_parser \<and>
   is_article_link example_lib example_parser ''https://ex.org/news/2024/one'' = Inr True \<and>
   is_article_link example_lib (example_parser\<lparr>base_path := ''/News/''\<rparr>)
     ''https://ex.org/news/2024/one'' = Inr False \<and>
   (\<exists>parsed. urlparse example_lib ''https://ex.org/news/list/'' = Inr parsed \<and>
     (let segs = path_parts (path parsed)
      in (\<forall>seg \<in> set segs. seg \<noteq> [] \<and> CHR ''/'' \<notin> set seg) \<and>
         base_path example_parser =
           (if 2 \<le> length segs then ''/'' @ join ''/'' (butlast segs) @ ''/''
            else if length segs = 1 then ''/'' @ hd segs @ ''/''
            else ''/'') \<and>
         suffix ''/'' (base_path example_parser) \<and>
         (\<forall>u. is_article_link example_lib example_parser u = Inr True \<longrightarrow>
            (\<exists>p. urlparse example_lib u = Inr p \<and>
                 prefix (base_path example_parser)
                   (rstrip (\<lambda>c. c = CHR ''/'') (path p) @ ''/'')))))"
proof -
  have h: "LinkExtractor_init example_lib ''https://ex.org/news/list/'' = Inr example_parser"
    by code_simp
  have a: "is_article_link example_lib example_parser ''https://ex.org/news/2024/one'' = Inr True"
    by code_simp
  have r: "is_article_link example_lib (example_parser\<lparr>base_path := ''/News/''\<rparr>)
     ''https://ex.org/news/2024/one'' = Inr False"
    by code_simp
  from h a r base_path_shape [OF h] show ?thesis
    by blast
qed

section \<open>Deduplication in the classifier\<close>

lemma link_handle_starttag_links:
  assumes "link_handle_starttag lib s tag ats = Inr s'"
  shows "s' = s \<or> (\<exists>u. canonical_url lib s ats = Some u \<and> u \<notin> set (links s) \<and>
                         s' = s\<lparr>links := links s @ [u]\<rparr>)"
  using assms
  by (auto simp: link_handle_starttag_def canonical_url_def
      split: if_splits sum.splits option.splits list.splits)

lemma link_handle_links:
  assumes "link_handle lib s e = Inr s'"
  shows "base_url s' = base_url s \<and> prefix (links s) (links s') \<and>
         (distinct (links s) \<longrightarrow> distinct (links s'))"
proof (cases e)
  case (StartTag tag ats)
  with assms link_handle_starttag_links [of lib s tag ats s'] show ?thesis
    by auto
qed (use assms in auto)

lemma link_events_links:
  assumes "link_events lib s es = Inr s'"
  shows "base_url s' = base_url s \<and> prefix (links s) (links s') \<and>
         (distinct (links s) \<longrightarrow> distinct (links s'))"
  using assms
proof (induction es arbitrary: s)
  case Nil
  then show ?case by simp
next
  case (Cons e es)
  from Cons.prems obtain s1 where s1: "link_handle lib s e = Inr s1"
    and rest: "link_events lib s1 es = Inr s'"
    by (auto split: sum.splits)
  from link_handle_links [OF s1] Cons.IH [OF rest] show ?case
    by (auto intro: prefix_order.trans)
qed

lemma link_events_append:
  "link_events lib s (es1 @ es2) =
     (case link_events lib s es1 of Inl exc \<Rightarrow> Inl exc | Inr s1 \<Rightarrow> link_events lib s1 es2)"
  by (induction es1 arbitrary: s) (auto split: sum.splits)





section \<open>The classifier skips anchors without a target\<close>

lemma dict_get_absent: "name \<notin> fst ` set ats \<Longrightarrow> dict_get ats name = None"
  by (simp add: dict_get_def map_of_eq_None_iff [THEN iffD2])

text \<open>
  Claim C10. An anchor with no \<open>href\<close> attribute, or one whose \<open>href\<close> (as
  \<open>dict(attrs).get("href")\<close> reads it) is absent, without a value or the empty string,
  leaves the classifier as it was, links included, and no library function is called on
  it: the result is the same whatever \<open>urljoin\<close> and \<open>urlparse\<close> do.
\<close>

theorem anchor_without_href_is_skipped:
  "''href'' \<notin> fst ` set ats \<or> dict_get ats ''href'' = None \<or> dict_get ats ''href'' = Some [] \<Longrightarrow>
   link_handle_starttag lib s tag ats = Inr s"
  by (auto simp: link_handle_starttag_def dict_get_absent)

theorem anchor_without_href_is_skipped_witness:
  "''href'' \<notin> fst ` set [(''class'', Some ''nav'')] \<and>
   link_handle_starttag example_lib example_parser ''a'' [(''class'', Some ''nav'')] =
     Inr example_parser \<and>
   dict_get [(''href'', Some [])] ''href'' = Some [] \<and>
   link_handle_starttag example_lib example_parser ''a'' [(''href'', Some [])] =
     Inr example_parser"
proof -
  have h1: "''href'' \<notin> fst ` set [(''class'', Some ''nav'')]"
    by simp
  have h2: "dict_get [(''href'', Some [])] ''href'' = Some []"
    by (simp add: dict_get_def)
  from h1 h2
    anchor_without_href_is_skipped
      [of "[(''class'', Some ''nav'')]" example_lib example_parser "''a''"]
    anchor_without_href_is_skipped
      [of "[(''href'', Some [])]" example_lib example_parser "''a''"]
  show ?thesis by simp
qed

section \<open>The loop over the candidates\<close>

lemma extract_links_distinct:
  assumes "extract_links lib html url = Inr ls"
  shows "distinct ls"
proof -
  from assms obtain p p' es err where p: "LinkExtractor_init lib url = Inr p"
    and es: "html_feed lib html = (es, err)" and p': "link_events lib p es = Inr p'"
    and ls: "ls = links p'"
    by (auto simp: extract_links_def link_feed_def split: sum.splits prod.splits option.splits)
  from p have "links p = []"
    by (auto simp: LinkExtractor_init_def split: sum.splits)
  with link_events_links [OF p'] ls show ?thesis
    by simp
qed

lemma scrape_link_records:
  "\<exists>new. scrape_link lib fetch w link acc = (acc @ new, snd (fetch w link)) \<and>
         subseq (map result_url new) [Some link]"
  by (cases "fetch w link")
    (auto simp: scrape_link_def split: sum.splits)

lemma scrape_loop_append:
  "scrape_loop lib fetch w (xs @ ys) acc =
     (case scrape_loop lib fetch w xs acc of (rs, w') \<Rightarrow> scrape_loop lib fetch w' ys rs)"
  by (induction xs arbitrary: w acc) (auto split: prod.splits)

lemma scrape_loop_records:
  "\<exists>new. fst (scrape_loop lib fetch w ls acc) = acc @ new \<and>
         subseq (map result_url new) (map Some ls)"
proof (induction ls arbitrary: w acc)
  case Nil
  show ?case by simp
next
  case (Cons l ls)
  obtain new1 where s1: "scrape_link lib fetch w l acc = (acc @ new1, snd (fetch w l))"
    and n1: "subseq (map result_url new1) [Some l]"
    using scrape_link_records [of lib fetch w l acc] by blast
  obtain new2 where s2:
    "fst (scrape_loop lib fetch (snd (fetch w l)) ls (acc @ new1)) = (acc @ new1) @ new2"
    and n2: "subseq (map result_url new2) (map Some ls)"
    using Cons.IH [of "snd (fetch w l)" "acc @ new1"] by blast
  from n1 n2 have "subseq (map result_url new1 @ map result_url new2) ([Some l] @ map Some ls)"
    by (rule list_emb_append_mono)
  with s1 s2 show ?case
    by (intro exI [of _ "new1 @ new2"]) simp
qed

lemma subseq_set: "subseq xs ys \<Longrightarrow> set xs \<subseteq> set ys"
  by (auto dest: list_emb_set)

text \<open>
  Claim C3. In a crawl in normal mode, a candidate whose fetch succeeds and whose page
  reduces to the empty string adds nothing: the loop goes on with the records it had,
  and the results of the crawl hold no record with the URL of that candidate, neither
  content nor error.
\<close>

theorem empty_content_is_dropped:
  assumes "fetch w url = (Inr index_html, w0)"
    and "extract_links lib index_html url = Inr (pre @ link # post)"
    and "scrape_loop lib fetch w0 pre [] = (rs, w1)"
    and "fetch w1 link = (Inr page_html, w2)"
    and "extract_text lib page_html = Inr []"
  shows "\<exists>results wf.
           scrape_articles lib fetch w url False = (Inr results, wf) \<and>
           scrape_loop lib fetch w2 post rs = (results, wf) \<and>
           (\<forall>r \<in> set results. result_url r \<noteq> Some link)"
proof -
  obtain results wf where post: "scrape_loop lib fetch w2 post rs = (results, wf)"
    by (cases "scrape_loop lib fetch w2 post rs")
  have link: "scrape_link lib fetch w1 link rs = (rs, w2)"
    using assms(4,5) by (simp add: scrape_link_def)
  have loop: "scrape_loop lib fetch w0 (pre @ link # post) [] = (results, wf)"
    using assms(3) link post by (simp add: scrape_loop_append)
  have crawl: "scrape_articles lib fetch w url False = (Inr results, wf)"
    using assms(1,2) loop by (simp add: scrape_articles_def)
  from extract_links_distinct [OF assms(2)]
  have notin: "link \<notin> set pre" "link \<notin> set post"
    by auto
  obtain new1 where new1: "rs = [] @ new1" "subseq (map result_url new1) (map Some pre)"
    using scrape_loop_records [of lib fetch w0 pre "[]"] assms(3) by auto
  obtain new2 where new2: "results = rs @ new2" "subseq (map result_url new2) (map Some post)"
    using scrape_loop_records [of lib fetch w2 post rs] post by auto
  have "result_url r \<noteq> Some link" if "r \<in> set results" for r
  proof
    assume eq: "result_url r = Some link"
    from that new1(1) new2(1) have "r \<in> set new1 \<or> r \<in> set new2"
      by auto
    then have "Some link \<in> set (map result_url new1) \<or> Some link \<in> set (map result_url new2)"
      using eq by (metis image_eqI set_map)
    with subseq_set [OF new1(2)] subseq_set [OF new2(2)] notin show False
      by auto
  qed
  with crawl post show ?thesis
    by blast
qed

theorem empty_content_is_dropped_witness:
  "example_fetch [] ''https://ex.org/news/archive/'' =
     (Inr index_archive, [''https://ex.org/news/archive/'']) \<and>
   extract_links example_lib index_archive ''https://ex.org/news/archive/'' =
     Inr ([''https://ex.org/news/2024/one''] @ ''https://ex.org/news/2024/blank'' # []) \<and>
   scrape_loop example_lib example_fetch [''https://ex.org/news/archive/'']
     [''https://ex.org/news/2024/one''] [] =
     ([Content ''https://ex.org/news/2024/one'' ''Hello World''],
      [''https://ex.org/news/archive/'', ''https://ex.org/news/2024/one'']) \<and>
   example_fetch [''https://ex.org/news/archive/'', ''https://ex.org/news/2024/one'']
     ''https://ex.org/news/2024/blank'' =
     (Inr ''<script>x</script>'',
      [''https://ex.org/news/archive/'', ''https://ex.org/news/2024/one'',
       ''https://ex.org/news/2024/blank'']) \<and>
   extract_text example_lib ''<script>x</script>'' = Inr [] \<and>
   scrape_articles example_lib example_fetch [] ''https://ex.org/news/archive/'' False =
     (Inr [Content ''https://ex.org/news/2024/one'' ''Hello World''],
      [''https://ex.org/news/archive/'', ''https://ex.org/news/2024/one'',
       ''https://ex.org/news/2024/blank''])"
proof -
  let ?archive = "''https://ex.org/news/archive/''"
  let ?one = "''https://ex.org/news/2024/one''"
  let ?blank = "''https://ex.org/news/2024/blank''"
  have idx: "example_fetch [] ?archive = (Inr index_archive, [?archive])"
    by code_simp
  have ls: "extract_links example_lib index_archive ?archive = Inr ([?one] @ ?blank # [])"
    by code_simp
  have before: "scrape_loop example_lib example_fetch [?archive] [?one] [] =
      ([Content ?one ''Hello World''], [?archive, ?one])"
    by code_simp
  have page: "example_fetch [?archive, ?one] ?blank =
      (Inr ''<script>x</script>'', [?archive, ?one, ?blank])"
    by code_simp
  have empty: "extract_text example_lib ''<script>x</script>'' = Inr []"
    by code_simp
  from empty_content_is_dropped
    [where fetch = example_fetch and w = "[]" and url = ?archive and lib = example_lib
       and pre = "[?one]" and link = ?blank and post = "[]"
       and ?w0.0 = "[?archive]" and ?w1.0 = "[?archive, ?one]"
       and ?w2.0 = "[?archive, ?one, ?blank]", OF idx ls before page empty]
  have "scrape_articles example_lib example_fetch [] ?archive False =
      (Inr [Content ?one ''Hello World''], [?archive, ?one, ?blank])"
    by auto
  with idx ls before page empty show ?thesis
    by (intro conjI)
qed
lemma scrape_link_one_record:
  assumes "fetch w l = (out, w')"
    and "\<forall>html. out = Inr html \<longrightarrow> (\<exists>t. extract_text lib html = Inr t \<and> t \<noteq> [])"
  shows "scrape_link lib fetch w l acc = (acc @ [link_record lib l out], w') \<and>
         result_url (link_record lib l out) = Some l \<and>
         is_error (link_record lib l out) = isl out \<and>
         is_content (link_record lib l out) = (\<not> isl out)"
proof (cases out)
  case (Inl exc)
  with assms(1) show ?thesis
    by (simp add: scrape_link_def link_record_def)
next
  case (Inr html)
  with assms(2) obtain t where "extract_text lib html = Inr t" "t \<noteq> []"
    by blast
  with Inr assms(1) show ?thesis
    by (simp add: scrape_link_def link_record_def)
qed

text \<open>
  Claim C1. Take a crawl in normal mode whose index fetch succeeds and whose classifier
  returns the candidates. The candidates are fetched one after the other in the order
  of the classifier, and the URLs of the records follow that order. A candidate whose
  fetch fails adds the error record of its URL and message to the records so far, and
  the loop goes on with the candidates after it. With three candidates of which exactly
  one fetch fails, the other two pages reducing to non-empty text, the result is three
  records, one per candidate in the order of the candidates: one error record, at the
  place of the failed fetch, and two content records.
\<close>

theorem candidate_failure_is_recorded:
  assumes "fetch w url = (Inr index_html, w0)"
    and "extract_links lib index_html url = Inr article_links"
  shows
    "(\<exists>results wf.
        scrape_articles lib fetch w url False = (Inr results, wf) \<and>
        scrape_loop lib fetch w0 article_links [] = (results, wf) \<and>
        subseq (map result_url results) (map Some article_links)) \<and>
     (article_links = pre @ link # post \<and> scrape_loop lib fetch w0 pre [] = (rs, w1) \<and>
      fetch w1 link = (Inl exc, w2) \<longrightarrow>
        (\<exists>rest wf.
           scrape_articles lib fetch w url False =
             (Inr (rs @ Error link (exc_str exc) # rest), wf) \<and>
           scrape_loop lib fetch w2 post (rs @ [Error link (exc_str exc)]) =
             (rs @ Error link (exc_str exc) # rest, wf))) \<and>
     (article_links = [a, b, c] \<and>
      fetch w0 a = (oa, wa) \<and> fetch wa b = (ob, wb) \<and> fetch wb c = (oc, wc) \<and>
      length (filter isl [oa, ob, oc]) = 1 \<and>
      (\<forall>out \<in> set [oa, ob, oc]. \<forall>html. out = Inr html \<longrightarrow>
         (\<exists>t. extract_text lib html = Inr t \<and> t \<noteq> [])) \<longrightarrow>
        (let results = [link_record lib a oa, link_record lib b ob, link_record lib c oc]
         in scrape_articles lib fetch w url False = (Inr results, wc) \<and>
            map result_url results = [Some a, Some b, Some c] \<and>
            map is_error results = map isl [oa, ob, oc] \<and>
            length (filter is_error results) = 1 \<and>
            length (filter is_content results) = 2))"
proof -
  have crawl: "scrape_articles lib fetch w url False =
      (Inr (fst (scrape_loop lib fetch w0 article_links [])),
       snd (scrape_loop lib fetch w0 article_links []))"
    using assms by (simp add: scrape_articles_def split: prod.splits)
  have order: "\<exists>results wf.
        scrape_articles lib fetch w url False = (Inr results, wf) \<and>
        scrape_loop lib fetch w0 article_links [] = (results, wf) \<and>
        subseq (map result_url results) (map Some article_links)"
    using crawl scrape_loop_records [of lib fetch w0 article_links "[]"]
    by (cases "scrape_loop lib fetch w0 article_links []") auto
  have failure: "\<exists>rest wf.
           scrape_articles lib fetch w url False =
             (Inr (rs @ Error link (exc_str exc) # rest), wf) \<and>
           scrape_loop lib fetch w2 post (rs @ [Error link (exc_str exc)]) =
             (rs @ Error link (exc_str exc) # rest, wf)"
    if decomp: "article_links = pre @ link # post"
      and pre: "scrape_loop lib fetch w0 pre [] = (rs, w1)"
      and fails: "fetch w1 link = (Inl exc, w2)"
  proof -
    have link: "scrape_link lib fetch w1 link rs = (rs @ [Error link (exc_str exc)], w2)"
      using fails by (simp add: scrape_link_def)
    obtain rest where rest:
      "fst (scrape_loop lib fetch w2 post (rs @ [Error link (exc_str exc)])) =
         (rs @ [Error link (exc_str exc)]) @ rest"
      using scrape_loop_records [of lib fetch w2 post "rs @ [Error link (exc_str exc)]"]
      by blast
    have "scrape_loop lib fetch w0 article_links [] =
        scrape_loop lib fetch w2 post (rs @ [Error link (exc_str exc)])"
      using decomp pre link by (simp add: scrape_loop_append)
    with crawl rest show ?thesis
      by (cases "scrape_loop lib fetch w2 post (rs @ [Error link (exc_str exc)])") auto
  qed
  have three: "let results = [link_record lib a oa, link_record lib b ob, link_record lib c oc]
         in scrape_articles lib fetch w url False = (Inr results, wc) \<and>
            map result_url results = [Some a, Some b, Some c] \<and>
            map is_error results = map isl [oa, ob, oc] \<and>
            length (filter is_error results) = 1 \<and>
            length (filter is_content results) = 2"
    if abc: "article_links = [a, b, c]"
      and fa: "fetch w0 a = (oa, wa)" and fb: "fetch wa b = (ob, wb)"
      and fc: "fetch wb c = (oc, wc)"
      and one: "length (filter isl [oa, ob, oc]) = 1"
      and nonempty: "\<forall>out \<in> set [oa, ob, oc]. \<forall>html. out = Inr html \<longrightarrow>
         (\<exists>t. extract_text lib html = Inr t \<and> t \<noteq> [])"
  proof -
    let ?ra = "link_record lib a oa"
    let ?rb = "link_record lib b ob"
    let ?rc = "link_record lib c oc"
    from nonempty
    have ta: "\<forall>html. oa = Inr html \<longrightarrow> (\<exists>t. extract_text lib html = Inr t \<and> t \<noteq> [])"
      and tb: "\<forall>html. ob = Inr html \<longrightarrow> (\<exists>t. extract_text lib html = Inr t \<and> t \<noteq> [])"
      and tc: "\<forall>html. oc = Inr html \<longrightarrow> (\<exists>t. extract_text lib html = Inr t \<and> t \<noteq> [])"
      by simp_all
    note ra = scrape_link_one_record
      [where fetch = fetch and w = w0 and l = a and acc = "[]", OF fa ta]
    note rb = scrape_link_one_record
      [where fetch = fetch and w = wa and l = b and acc = "[?ra]", OF fb tb]
    note rc = scrape_link_one_record
      [where fetch = fetch and w = wb and l = c and acc = "[?ra, ?rb]", OF fc tc]
    have loop: "scrape_loop lib fetch w0 article_links [] = ([?ra, ?rb, ?rc], wc)"
      using abc ra rb rc by simp
    have errs: "length (filter is_error [?ra, ?rb, ?rc]) = 1"
      using one ra rb rc by (cases "isl oa"; cases "isl ob"; cases "isl oc") simp_all
    have oks: "length (filter is_content [?ra, ?rb, ?rc]) = 2"
      using one ra rb rc by (cases "isl oa"; cases "isl ob"; cases "isl oc") simp_all
    from crawl loop ra rb rc errs oks show ?thesis
      by (simp add: Let_def)
  qed
  from order failure three show ?thesis
    by blast
qed

theorem candidate_failure_is_recorded_witness:
  "example_fetch [] ''https://ex.org/news/list/'' = (Inr index_list, [''https://ex.org/news/list/'']) \<and>
   extract_links example_lib index_list ''https://ex.org/news/list/'' =
     Inr [''https://ex.org/news/2024/one'', ''https://ex.org/news/2024/two'',
          ''https://ex.org/news/2024/three''] \<and>
   scrape_loop example_lib example_fetch [''https://ex.org/news/list/'']
     [''https://ex.org/news/2024/one''] [] =
     ([Content ''https://ex.org/news/2024/one'' ''Hello World''],
      [''https://ex.org/news/list/'', ''https://ex.org/news/2024/one'']) \<and>
   example_fetch [''https://ex.org/news/list/'', ''https://ex.org/news/2024/one'']
     ''https://ex.org/news/2024/two'' =
     (Inl (PyException ''HTTPError'' ''HTTP Error 404: ''),
      [''https://ex.org/news/list/'', ''https://ex.org/news/2024/one'',
       ''https://ex.org/news/2024/two'']) \<and>
   example_fetch [''https://ex.org/news/list/''] ''https://ex.org/news/2024/one'' =
     (Inr ''<p>Hello <script>ignored()</script>World</p>'',
      [''https://ex.org/news/list/'', ''https://ex.org/news/2024/one'']) \<and>
   example_fetch [''https://ex.org/news/list/'', ''https://ex.org/news/2024/one'',
                  ''https://ex.org/news/2024/two''] ''https://ex.org/news/2024/three'' =
     (Inr ''<p>Three</p>'',
      [''https://ex.org/news/list/'', ''https://ex.org/news/2024/one'',
       ''https://ex.org/news/2024/two'', ''https://ex.org/news/2024/three'']) \<and>
   extract_text example_lib ''<p>Hello <script>ignored()</script>World</p>'' = Inr ''Hello World'' \<and>
   extract_text example_lib ''<p>Three</p>'' = Inr ''Three'' \<and>
   scrape_articles example_lib example_fetch [] ''https://ex.org/news/list/'' False =
     (Inr [Content ''https://ex.org/news/2024/one'' ''Hello World'',
           Error ''https://ex.org/news/2024/two'' ''HTTP Error 404: '',
           Content ''https://ex.org/news/2024/three'' ''Three''],
      [''https://ex.org/news/list/'', ''https://ex.org/news/2024/one'',
       ''https://ex.org/news/2024/two'', ''https://ex.org/news/2024/three'']) \<and>
   (let results =
          [link_record example_lib ''https://ex.org/news/2024/one''
             (Inr ''<p>Hello <script>ignored()</script>World</p>''),
           link_record example_lib ''https://ex.org/news/2024/two''
             (Inl (PyException ''HTTPError'' ''HTTP Error 404: '')),
           link_record example_lib ''https://ex.org/news/2024/three'' (Inr ''<p>Three</p>'')]
    in scrape_articles example_lib example_fetch [] ''https://ex.org/news/list/'' False =
         (Inr results,
          [''https://ex.org/news/list/'', ''https://ex.org/news/2024/one'',
           ''https://ex.org/news/2024/two'', ''https://ex.org/news/2024/three'']) \<and>
       length (filter is_error results) = 1 \<and>
       length (filter is_content results) = 2) \<and>
   (\<exists>rest wf.
      scrape_articles example_lib example_fetch [] ''https://ex.org/news/list/'' False =
        (Inr ([Content ''https://ex.org/news/2024/one'' ''Hello World''] @
              Error ''https://ex.org/news/2024/two'' ''HTTP Error 404: '' # rest), wf))"
proof -
  let ?list = "''https://ex.org/news/list/''"
  let ?one = "''https://ex.org/news/2024/one''"
  let ?two = "''https://ex.org/news/2024/two''"
  let ?three = "''https://ex.org/news/2024/three''"
  let ?p1 = "''<p>Hello <script>ignored()</script>World</p>''"
  let ?p3 = "''<p>Three</p>''"
  let ?exc = "PyException ''HTTPError'' ''HTTP Error 404: ''"
  have idx: "example_fetch [] ?list = (Inr index_list, [?list])"
    by code_simp
  have ls: "extract_links example_lib index_list ?list = Inr [?one, ?two, ?three]"
    by code_simp
  have pre: "scrape_loop example_lib example_fetch [?list] [?one] [] =
      ([Content ?one ''Hello World''], [?list, ?one])"
    by code_simp
  have f2: "example_fetch [?list, ?one] ?two = (Inl ?exc, [?list, ?one, ?two])"
    by code_simp
  have f1: "example_fetch [?list] ?one = (Inr ?p1, [?list, ?one])"
    by code_simp
  have f3: "example_fetch [?list, ?one, ?two] ?three = (Inr ?p3, [?list, ?one, ?two, ?three])"
    by code_simp
  have t1: "extract_text example_lib ?p1 = Inr ''Hello World''"
    by code_simp
  have t3: "extract_text example_lib ?p3 = Inr ''Three''"
    by code_simp
  have crawl: "scrape_articles example_lib example_fetch [] ?list False =
      (Inr [Content ?one ''Hello World'', Error ?two ''HTTP Error 404: '',
            Content ?three ''Three''], [?list, ?one, ?two, ?three])"
    by code_simp
  have exactly_one: "length (filter isl [Inr ?p1, Inl ?exc, Inr ?p3 :: py_exception + string]) = 1"
    by simp
  have nonempty: "\<forall>out \<in> set [Inr ?p1, Inl ?exc, Inr ?p3]. \<forall>html. out = Inr html \<longrightarrow>
      (\<exists>t. extract_text example_lib html = Inr t \<and> t \<noteq> [])"
    using t1 t3 by simp
  note inst = candidate_failure_is_recorded
    [where fetch = example_fetch and w = "[]" and url = ?list and lib = example_lib
       and pre = "[?one]" and link = ?two and post = "[?three]"
       and rs = "[Content ?one ''Hello World'']" and ?w1.0 = "[?list, ?one]" and exc = ?exc
       and ?w2.0 = "[?list, ?one, ?two]"
       and a = ?one and b = ?two and c = ?three
       and oa = "Inr ?p1" and wa = "[?list, ?one]"
       and ob = "Inl ?exc" and wb = "[?list, ?one, ?two]"
       and oc = "Inr ?p3" and wc = "[?list, ?one, ?two, ?three]", OF idx ls]
  from inst f1 f2 f3 exactly_one nonempty
  have three: "let results =
          [link_record example_lib ?one (Inr ?p1), link_record example_lib ?two (Inl ?exc),
           link_record example_lib ?three (Inr ?p3)]
    in scrape_articles example_lib example_fetch [] ?list False =
         (Inr results, [?list, ?one, ?two, ?three]) \<and>
       length (filter is_error results) = 1 \<and>
       length (filter is_content results) = 2"
    by (simp add: Let_def)
  from inst pre f2
  have failure: "\<exists>rest wf.
      scrape_articles example_lib example_fetch [] ?list False =
        (Inr ([Content ?one ''Hello World''] @ Error ?two ''HTTP Error 404: '' # rest), wf)"
    by auto
  from idx ls pre f2 f1 f3 t1 t3 crawl three failure show ?thesis
    by (intro conjI)
qed

section \<open>The debug mode\<close>









section \<open>Failure of the index fetch\<close>

text \<open>
  Claim C2. When the fetch of the index page fails, the crawl ends with that one
  exception, raised to the caller: there is no list of records, in either mode, and
  nothing else is fetched (the world is as the failed fetch left it).
\<close>

theorem index_fetch_failure_is_fatal:
  "fetch w url = (Inl exc, w1) \<Longrightarrow> scrape_articles lib fetch w url debug = (Inl exc, w1)"
  by (simp add: scrape_articles_def)

theorem index_fetch_failure_is_fatal_witness:
  "example_fetch [] ''https://ex.org/news/none/'' =
     (Inl (PyException ''HTTPError'' ''HTTP Error 404: ''), [''https://ex.org/news/none/'']) \<and>
   scrape_articles example_lib example_fetch [] ''https://ex.org/news/none/'' False =
     (Inl (PyException ''HTTPError'' ''HTTP Error 404: ''), [''https://ex.org/news/none/''])"
proof -
  have h: "example_fetch [] ''https://ex.org/news/none/'' =
     (Inl (PyException ''HTTPError'' ''HTTP Error 404: ''), [''https://ex.org/news/none/''])"
    by code_simp
  from h index_fetch_failure_is_fatal
    [where fetch = example_fetch and w = "[]" and url = "''https://ex.org/news/none/''"
       and lib = example_lib and debug = False]
  show ?thesis by simp
qed

section \<open>The responses of the endpoint\<close>

text \<open>
  Two of the responses are as the contract has them: without a \<open>url\<close> and without a
  JSON body the answer is the client error 400 and its message, and an exception of the
  crawl becomes the server error 500 with the message of the exception.
\<close>

lemma scrape_missing_url:
  assumes "args_url req = None \<or> args_url req = Some []" and "\<not> is_json req"
  shows "scrape lib fetch bad_url w req =
           (Inr (ErrorMessage ''Missing required parameter: url'', 400), w)"
  using assms by (auto simp: scrape_def)

lemma scrape_crawl_exception:
  assumes "args_url req = Some u" and "u \<noteq> []"
    and "scrape_articles lib fetch w u
           (lower (case args_debug req of None \<Rightarrow> [] | Some d \<Rightarrow> d) \<in> {''1'', ''true''}) =
         (Inl exc, w')"
  shows "scrape lib fetch bad_url w req = (Inr (ErrorMessage (exc_str exc), 500), w')"
  using assms by (simp add: scrape_def)

text \<open>
  Claim C9 fails on a request that has no \<open>url\<close> query parameter and announces a JSON
  body that cannot be parsed: \<open>get_json(silent=True, force=True)\<close> is \<open>None\<close>, the call
  of \<open>.get("url")\<close> on it raises \<open>AttributeError\<close> before the \<open>try\<close>, and the exception
  leaves the view.
\<close>

theorem scrape_unhandled_exception:
  "scrape lib fetch bad_url w
     \<lparr>args_url = None, args_debug = None, is_json = True, get_json = None\<rparr> =
   (Inl (PyException ''AttributeError''
          (quoted ''NoneType'' @ '' object has no attribute '' @ quoted ''get'')), w)"
  by (simp add: scrape_def py_get_def)

end
